theory Spec2Isabelle
  imports Complex_Main
begin

section \<open>The abstract syntax tree (ast.py)\<close>

text \<open>
  The node classes of ast.py. Every \<open>Expression\<close> carries the class attribute
  \<open>minus_flag\<close> (initially \<open>False\<close>): it is the first field of each constructor.
  A field is typed by what the constructor's assertions let through: where \<open>__init__\<close>
  asserts the class of an argument the field has that type, where it accepts \<open>None\<close>
  the field is an option, and where it asserts nothing (the right operand of a
  \<open>BinaryOperation\<close>, the items of a print list) the field holds what the parser can
  put there: a node or \<open>None\<close>. An \<open>ID\<close> in a name position (function name,
  parameter, declared variable, assignment target, callee) is read through its
  \<open>name\<close> only, so it is kept as that string.
\<close>

datatype expression =
    BinaryOperation bool expression string "expression option"
  | Number bool real
  | ID bool string
  | FunctionCall bool string "expression list option"

datatype print_item = Text string | Expression expression | NoneItem

datatype variable_declaration = VariableDeclaration "string list"

datatype statement =
    AssignStatement string expression
  | IfStatement expression block "block option"
  | WhileStatement expression block
  | ReturnStatement expression
  | PrintStatement "print_item list"
and block = Block "variable_declaration list" "statement list"

datatype function_definition = FunctionDefinition string "string list" block

datatype program = Program "function_definition list"

text \<open>\<open>Expression.minus_flag\<close> and \<open>Expression.change_minus_flag\<close>.\<close>

fun minus_flag :: "expression \<Rightarrow> bool" where
  "minus_flag (BinaryOperation f l operator r) = f"
| "minus_flag (Number f v) = f"
| "minus_flag (ID f name) = f"
| "minus_flag (FunctionCall f name argument_list) = f"

fun change_minus_flag :: "expression \<Rightarrow> expression" where
  "change_minus_flag (BinaryOperation f l operator r) = BinaryOperation (\<not> f) l operator r"
| "change_minus_flag (Number f v) = Number (\<not> f) v"
| "change_minus_flag (ID f name) = ID (\<not> f) name"
| "change_minus_flag (FunctionCall f name argument_list) = FunctionCall (\<not> f) name argument_list"

subsection \<open>Errors\<close>

text \<open>
  \<open>CodegenError\<close> is the lowering error of codegen.py, one constructor of
  \<open>codegen_error\<close> per \<open>raise CodegenError(...)\<close> of the file. The others are the
  Python exceptions the code can run into: an assertion that fails, an attribute that
  was never set or a method that does not exist (\<open>AttributeError\<close>), a dictionary
  subscript that misses (\<open>KeyError\<close>), \<open>len(None)\<close> and the type checks of
  llvmlite's \<open>store\<close>, \<open>load\<close> and \<open>call\<close> (\<open>TypeError\<close>), the operand check of
  its arithmetic instructions (\<open>ValueError\<close>), a call with fewer arguments than
  the callee has parameters (\<open>IndexError\<close>), a text that the \<open>unicode_escape\<close>
  codec refuses (\<open>UnicodeDecodeError\<close>) and llvmlite's \<open>DuplicatedNameError\<close> for
  a second global of the same name.
\<close>

datatype codegen_error =
    NameNotDefined string
  | NoSuchOperator string
  | CallToUnknownFunction string
  | CallArgumentLengthMismatch nat string
  | RedefinitionOfFunction string

datatype error =
    CodegenError codegen_error
  | AssertionError
  | AttributeError string
  | KeyError string
  | TypeError string
  | ValueError string
  | IndexError
  | UnicodeDecodeError
  | DuplicatedNameError string

subsection \<open>Node construction\<close>

text \<open>
  The arguments a constructor can be handed are dynamically typed. The two
  constructors below are modelled on the values the parser passes them: an operand
  is an \<open>Expression\<close> or \<open>None\<close> (\<open>p_expression_uminus\<close> assigns the result of
  \<open>change_minus_flag()\<close>, which is \<open>None\<close>), a print list is any list of items.
  \<open>BinaryOperation.__init__\<close> asserts the class of the left operand and the
  operator, and nothing about the right operand; \<open>PrintStatement.__init__\<close> asserts
  only that the print list is a list.
\<close>

definition BinaryOperation_init ::
  "expression option \<Rightarrow> string \<Rightarrow> expression option \<Rightarrow> error + expression" where
  "BinaryOperation_init left_expression operator right_expression =
     (case left_expression of
        None \<Rightarrow> Inl AssertionError
      | Some l \<Rightarrow>
          if operator \<notin> {''+'', ''-'', ''*'', ''/''} then Inl AssertionError
          else Inr (BinaryOperation False l operator right_expression))"

definition PrintStatement_init :: "print_item list \<Rightarrow> error + statement" where
  "PrintStatement_init print_list = Inr (PrintStatement print_list)"

section \<open>The IR under construction (llvmlite, as codegen.py uses it)\<close>

text \<open>
  llvmlite is a library, not part of the repository. It is modelled by what its
  \<open>ir\<close> classes do when codegen.py calls them:
  \<^item> a module is an ordered dictionary of globals (\<open>module.globals\<close>), each a function
    with its type or a global variable with its initializer; creating a global under
    a name the module already has raises \<open>DuplicatedNameError\<close>;
  \<^item> \<open>Module.get_global(name)\<close> is the subscript \<open>self.globals[name]\<close>: it returns the
    global or raises \<open>KeyError\<close>;
  \<^item> a builder is positioned in a block. \<open>builder.function\<close> is the parent of that
    block, and \<open>bfunction\<close> is the \<open>_name\<close> of that parent. The parent is a function,
    except for the block that \<open>_codegen_IfStatement\<close> creates with
    \<open>ir.Block(self.builder.block, ...)\<close>, whose parent is a block (\<open>bdetached\<close>);
    \<open>bterminated\<close> says that the block has its terminator;
  \<^item> every instruction the builder is asked for is added to its block. The
    instructions are kept in one list in the order of their creation, each with the
    builder that created it; the value of an instruction is named by its index in
    that list, which stands for the identity of the Python object. The names llvmlite
    gives to values and blocks (made unique by a numeric suffix) are not kept;
  \<^item> \<open>store\<close> and \<open>load\<close> raise \<open>TypeError\<close> unless the address is a pointer (for
    \<open>store\<close>: to the type of the value), an arithmetic instruction raises
    \<open>ValueError\<close> unless its operands have the same type, \<open>call\<close> raises \<open>TypeError\<close>
    for an argument that has not the type of its parameter, and a terminator
    (\<open>ret\<close>) raises \<open>AssertionError\<close> in a block that has one.
\<close>

datatype ir_type =
    DoubleType
  | VoidType
  | IntType nat
  | PointerType ir_type
  | ArrayType ir_type nat
  | FunctionType ir_type "ir_type list" bool

datatype initializer = CString string

datatype global_value =
    Function ir_type "ir_type list" bool
  | GlobalVariable initializer

datatype ir_value =
    Constant real
  | Instruction nat
  | Argument string nat
  | Global string

text \<open>
  An instruction whose type depends on its operands (a load, an arithmetic
  instruction, a call) carries that type, as the llvmlite object does.
\<close>

datatype instruction =
    Alloca string
  | Store ir_value ir_value
  | Load ir_type ir_value string
  | FAdd ir_type ir_value ir_value
  | FSub ir_type ir_value ir_value
  | FMul ir_type ir_value ir_value
  | FDiv ir_type ir_value ir_value
  | FCmpOrdered string ir_value ir_value
  | Bitcast ir_value ir_type
  | Call ir_type ir_value "ir_value list"
  | Ret ir_value
  | RetVoid

fun instruction_type :: "instruction \<Rightarrow> ir_type" where
  "instruction_type (Alloca name) = PointerType DoubleType"
| "instruction_type (Store v p) = VoidType"
| "instruction_type (Load t p name) = t"
| "instruction_type (FAdd t l r) = t"
| "instruction_type (FSub t l r) = t"
| "instruction_type (FMul t l r) = t"
| "instruction_type (FDiv t l r) = t"
| "instruction_type (FCmpOrdered cmpop l r) = IntType 1"
| "instruction_type (Bitcast v t) = t"
| "instruction_type (Call t f args) = t"
| "instruction_type (Ret v) = VoidType"
| "instruction_type RetVoid = VoidType"

fun global_type :: "global_value \<Rightarrow> ir_type" where
  "global_type (Function return_type args var_arg) = FunctionType return_type args var_arg"
| "global_type (GlobalVariable (CString bytes)) = ArrayType (IntType 8) (length bytes)"

record builder =
  bfunction :: string
  bblock :: string
  bdetached :: bool
  bterminated :: bool

section \<open>The code generator (codegen.py)\<close>

datatype mode = Shell | Compile

text \<open>
  What the generator takes from outside: the draws of \<open>ran6\<close> of utils.py (six
  random characters each), as a sequence, and Python's \<open>unicode_escape\<close> codec
  (\<open>bytes(text, encoding='utf-8').decode('unicode_escape')\<close>), whose
  \<open>UnicodeDecodeError\<close> is \<open>None\<close>.
\<close>

record environment =
  ran6_draws :: "nat \<Rightarrow> string"
  unicode_escape :: "string \<Rightarrow> string option"

text \<open>
  The attributes of an \<open>LLVMCodeGenerator\<close>. \<open>builder\<close> and \<open>main_symbol_table\<close> are
  set by \<open>__init__\<close> in shell mode only: \<open>None\<close> is the attribute that does not
  exist, and reading it raises \<open>AttributeError\<close>. \<open>instructions\<close> is the list of
  the instructions created so far; the module's name only labels the module and is
  left out. \<open>ran6_calls\<close> counts the draws of \<open>ran6\<close> that have been used.
\<close>

record generator =
  mode :: mode
  module_globals :: "(string \<times> global_value) list"
  instructions :: "(builder \<times> instruction) list"
  builder :: "builder option"
  main_symbol_table :: "(string \<rightharpoonup> ir_value) option"
  function_symbol_table :: "string \<rightharpoonup> ir_value"
  environment :: environment
  ran6_calls :: nat

definition main_function_name :: string where
  "main_function_name = ''main''"

definition float_format :: string where
  "float_format = ''%.1f''"

definition ran6 :: "generator \<Rightarrow> string \<times> generator" where
  "ran6 g = (ran6_draws (environment g) (ran6_calls g), g\<lparr>ran6_calls := Suc (ran6_calls g)\<rparr>)"

subsection \<open>The llvmlite operations\<close>

definition global_names :: "generator \<Rightarrow> string set" where
  "global_names g = fst ` set (module_globals g)"

definition get_global :: "string \<Rightarrow> generator \<Rightarrow> error + global_value" where
  "get_global name g =
     (case map_of (module_globals g) name of
        None \<Rightarrow> Inl (KeyError name)
      | Some v \<Rightarrow> Inr v)"

definition add_global :: "string \<Rightarrow> global_value \<Rightarrow> generator \<Rightarrow> (error + ir_value) \<times> generator" where
  "add_global name v g =
     (if name \<in> global_names g then (Inl (DuplicatedNameError name), g)
      else (Inr (Global name), g\<lparr>module_globals := module_globals g @ [(name, v)]\<rparr>))"

text \<open>
  The type of a value. An instruction index beyond the list names no object; it has
  the type \<open>void\<close> here, as has a global that is not in the module.
\<close>

definition type_of :: "generator \<Rightarrow> ir_value \<Rightarrow> ir_type" where
  "type_of g v =
     (case v of
        Constant c \<Rightarrow> DoubleType
      | Argument f i \<Rightarrow> DoubleType
      | Instruction n \<Rightarrow>
          if n < length (instructions g) then instruction_type (snd (instructions g ! n))
          else VoidType
      | Global name \<Rightarrow>
          (case map_of (module_globals g) name of
             None \<Rightarrow> VoidType
           | Some gv \<Rightarrow> PointerType (global_type gv)))"

text \<open>
  \<open>insert_instruction\<close> is the builder's \<open>_insert\<close>; the methods of the builder
  that codegen.py calls follow, each with the check llvmlite makes first. Reading
  \<open>self.builder\<close> comes before anything else.
\<close>

definition insert_instruction :: "instruction \<Rightarrow> generator \<Rightarrow> (error + ir_value) \<times> generator" where
  "insert_instruction i g =
     (case builder g of
        None \<Rightarrow> (Inl (AttributeError ''builder''), g)
      | Some b \<Rightarrow>
          (Inr (Instruction (length (instructions g))),
           g\<lparr>instructions := instructions g @ [(b, i)]\<rparr>))"

definition alloca :: "string \<Rightarrow> generator \<Rightarrow> (error + ir_value) \<times> generator" where
  "alloca name g = insert_instruction (Alloca name) g"

definition store :: "ir_value \<Rightarrow> ir_value \<Rightarrow> generator \<Rightarrow> (error + ir_value) \<times> generator" where
  "store v ptr g =
     (case builder g of
        None \<Rightarrow> (Inl (AttributeError ''builder''), g)
      | Some b \<Rightarrow>
          (case type_of g ptr of
             PointerType t \<Rightarrow>
               if t \<noteq> type_of g v then (Inl (TypeError ''store''), g)
               else insert_instruction (Store v ptr) g
           | _ \<Rightarrow> (Inl (TypeError ''store''), g)))"

definition load :: "ir_value \<Rightarrow> string \<Rightarrow> generator \<Rightarrow> (error + ir_value) \<times> generator" where
  "load ptr name g =
     (case builder g of
        None \<Rightarrow> (Inl (AttributeError ''builder''), g)
      | Some b \<Rightarrow>
          (case type_of g ptr of
             PointerType t \<Rightarrow> insert_instruction (Load t ptr name) g
           | _ \<Rightarrow> (Inl (TypeError ''load''), g)))"

definition arithmetic ::
  "(ir_type \<Rightarrow> ir_value \<Rightarrow> ir_value \<Rightarrow> instruction) \<Rightarrow> ir_value \<Rightarrow> ir_value \<Rightarrow> generator \<Rightarrow>
   (error + ir_value) \<times> generator" where
  "arithmetic instr lhs rhs g =
     (case builder g of
        None \<Rightarrow> (Inl (AttributeError ''builder''), g)
      | Some b \<Rightarrow>
          if type_of g lhs \<noteq> type_of g rhs then (Inl (ValueError ''operands''), g)
          else insert_instruction (instr (type_of g lhs) lhs rhs) g)"

definition fcmp_ordered ::
  "string \<Rightarrow> ir_value \<Rightarrow> ir_value \<Rightarrow> generator \<Rightarrow> (error + ir_value) \<times> generator" where
  "fcmp_ordered cmpop lhs rhs g = insert_instruction (FCmpOrdered cmpop lhs rhs) g"

definition bitcast :: "ir_value \<Rightarrow> ir_type \<Rightarrow> generator \<Rightarrow> (error + ir_value) \<times> generator" where
  "bitcast v t g = insert_instruction (Bitcast v t) g"

fun check_call_arguments :: "generator \<Rightarrow> ir_type list \<Rightarrow> ir_value list \<Rightarrow> error option" where
  "check_call_arguments g [] args = None"
| "check_call_arguments g (t # ts) [] = Some IndexError"
| "check_call_arguments g (t # ts) (a # args) =
     (if type_of g a \<noteq> t then Some (TypeError ''call'') else check_call_arguments g ts args)"

definition call ::
  "string \<Rightarrow> global_value \<Rightarrow> ir_value list \<Rightarrow> generator \<Rightarrow> (error + ir_value) \<times> generator" where
  "call name fn args g =
     (case builder g of
        None \<Rightarrow> (Inl (AttributeError ''builder''), g)
      | Some b \<Rightarrow>
          (case fn of
             GlobalVariable init \<Rightarrow> (Inl (AttributeError ''function_type''), g)
           | Function return_type parameter_types var_arg \<Rightarrow>
               (case check_call_arguments g parameter_types args of
                  Some e \<Rightarrow> (Inl e, g)
                | None \<Rightarrow> insert_instruction (Call return_type (Global name) args) g)))"

definition ret :: "ir_value \<Rightarrow> generator \<Rightarrow> (error + ir_value) \<times> generator" where
  "ret v g =
     (case builder g of
        None \<Rightarrow> (Inl (AttributeError ''builder''), g)
      | Some b \<Rightarrow>
          if bterminated b then (Inl AssertionError, g)
          else
            (Inr (Instruction (length (instructions g))),
             g\<lparr>instructions := instructions g @ [(b, Ret v)],
               builder := Some (b\<lparr>bterminated := True\<rparr>)\<rparr>))"

definition to_cstr :: "string \<Rightarrow> initializer" where
  "to_cstr python_str = CString (python_str @ [CHR 0x00])"

text \<open>\<open>str.strip('"')\<close>: the quotes at both ends, as many as there are.\<close>

definition strip_quotes :: "string \<Rightarrow> string" where
  "strip_quotes s =
     rev (dropWhile (\<lambda>c. c = CHR 0x22) (rev (dropWhile (\<lambda>c. c = CHR 0x22) s)))"

subsection \<open>\<open>__init__\<close>\<close>

text \<open>
  In shell mode the function \<open>main\<close> is created with its entry block, \<open>ret void\<close>
  is put into that block in advance, and the builder is left in it.
\<close>

definition LLVMCodeGenerator_init :: "mode \<Rightarrow> environment \<Rightarrow> generator" where
  "LLVMCodeGenerator_init m rnd =
     (case m of
        Shell \<Rightarrow>
          \<lparr>mode = Shell,
           module_globals = [(main_function_name, Function VoidType [] False)],
           instructions =
             [(\<lparr>bfunction = main_function_name, bblock = ''entry'',
                bdetached = False, bterminated = False\<rparr>, RetVoid)],
           builder = Some \<lparr>bfunction = main_function_name, bblock = ''entry'',
                           bdetached = False, bterminated = True\<rparr>,
           main_symbol_table = Some Map.empty,
           function_symbol_table = Map.empty,
           environment = rnd,
           ran6_calls = 0\<rparr>
      | Compile \<Rightarrow>
          \<lparr>mode = Compile,
           module_globals = [],
           instructions = [],
           builder = None,
           main_symbol_table = None,
           function_symbol_table = Map.empty,
           environment = rnd,
           ran6_calls = 0\<rparr>)"

subsection \<open>Expressions\<close>

definition codegen_Number :: "real \<Rightarrow> generator \<Rightarrow> (error + ir_value) \<times> generator" where
  "codegen_Number v g = (Inr (Constant v), g)"

text \<open>
  \<open>_codegen_Text\<close>: the text is stripped and decoded first, then the global is
  created under a random name and cast to \<open>i8*\<close>.
\<close>

definition codegen_Text :: "string \<Rightarrow> generator \<Rightarrow> (error + ir_value) \<times> generator" where
  "codegen_Text v g =
     (case unicode_escape (environment g) (strip_quotes v) of
        None \<Rightarrow> (Inl UnicodeDecodeError, g)
      | Some escaped_text \<Rightarrow>
          (case ran6 g of
             (r, g1) \<Rightarrow>
               (case add_global (''fstr_'' @ r) (GlobalVariable (to_cstr escaped_text)) g1 of
                  (Inl e, g2) \<Rightarrow> (Inl e, g2)
                | (Inr global_fmt, g2) \<Rightarrow> bitcast global_fmt (PointerType (IntType 8)) g2)))"

text \<open>
  \<open>_codegen_ID\<close>: the function scope first, otherwise the global scope, whose
  \<open>KeyError\<close> becomes the \<open>CodegenError\<close>.
\<close>

definition codegen_ID :: "string \<Rightarrow> generator \<Rightarrow> (error + ir_value) \<times> generator" where
  "codegen_ID name g =
     (case function_symbol_table g name of
        Some var_addr \<Rightarrow> load var_addr name g
      | None \<Rightarrow>
          (case main_symbol_table g of
             None \<Rightarrow> (Inl (AttributeError ''main_symbol_table''), g)
           | Some mt \<Rightarrow>
               (case mt name of
                  None \<Rightarrow> (Inl (CodegenError (NameNotDefined name)), g)
                | Some var_addr \<Rightarrow> load var_addr name g)))"

text \<open>
  \<open>_codegen\<close> on an expression, with \<open>_codegen_BinaryOperation\<close> and
  \<open>_codegen_FunctionCall\<close>. \<open>_codegen(None)\<close> looks for the method
  \<open>_codegen_NoneType\<close>, which does not exist.
\<close>

fun codegen :: "expression \<Rightarrow> generator \<Rightarrow> (error + ir_value) \<times> generator"
and codegen_arguments :: "expression list \<Rightarrow> generator \<Rightarrow> (error + ir_value list) \<times> generator"
where
  "codegen (Number f v) g = codegen_Number v g"
| "codegen (ID f name) g = codegen_ID name g"
| "codegen (BinaryOperation f left_expression operator right_expression) g =
     (case codegen left_expression g of
        (Inl e, g1) \<Rightarrow> (Inl e, g1)
      | (Inr lhs, g1) \<Rightarrow>
          (case (case right_expression of
                   None \<Rightarrow> (Inl (AttributeError ''_codegen_NoneType''), g1)
                 | Some r \<Rightarrow> codegen r g1) of
             (Inl e, g2) \<Rightarrow> (Inl e, g2)
           | (Inr rhs, g2) \<Rightarrow>
               if operator = ''+'' then arithmetic FAdd lhs rhs g2
               else if operator = ''-'' then arithmetic FSub lhs rhs g2
               else if operator = ''*'' then arithmetic FMul lhs rhs g2
               else if operator = ''/'' then arithmetic FDiv lhs rhs g2
               else (Inl (CodegenError (NoSuchOperator operator)), g2)))"
| "codegen (FunctionCall f name argument_list) g =
     (case get_global name g of
        Inl e \<Rightarrow> (Inl e, g)
      | Inr (GlobalVariable init) \<Rightarrow> (Inl (CodegenError (CallToUnknownFunction name)), g)
      | Inr (Function return_type args var_arg) \<Rightarrow>
          if length args \<noteq> (case argument_list of None \<Rightarrow> 0 | Some al \<Rightarrow> length al) then
            (case argument_list of
               None \<Rightarrow> (Inl (TypeError ''len''), g)
             | Some al \<Rightarrow> (Inl (CodegenError (CallArgumentLengthMismatch (length al) name)), g))
          else
            (case (case argument_list of
                     None \<Rightarrow> (Inr [], g)
                   | Some al \<Rightarrow> codegen_arguments al g) of
               (Inl e, g1) \<Rightarrow> (Inl e, g1)
             | (Inr call_args, g1) \<Rightarrow>
                 call name (Function return_type args var_arg) call_args g1))"
| "codegen_arguments [] g = (Inr [], g)"
| "codegen_arguments (arg # rest) g =
     (case codegen arg g of
        (Inl e, g1) \<Rightarrow> (Inl e, g1)
      | (Inr v, g1) \<Rightarrow>
          (case codegen_arguments rest g1 of
             (Inl e, g2) \<Rightarrow> (Inl e, g2)
           | (Inr vs, g2) \<Rightarrow> (Inr (v # vs), g2)))"

subsection \<open>Declarations\<close>

text \<open>
  The loop of \<open>_codegen_VariableDeclaration\<close> over \<open>node.variable_list\<close>: an alloca,
  the store of \<open>0.0\<close>, and the entry in the symbol table chosen by the name of the
  function the builder works on.
\<close>

fun codegen_variable_list :: "string list \<Rightarrow> generator \<Rightarrow> (error + unit) \<times> generator" where
  "codegen_variable_list [] g = (Inr (), g)"
| "codegen_variable_list (name # rest) g =
     (case alloca name g of
        (Inl e, g1) \<Rightarrow> (Inl e, g1)
      | (Inr var_addr, g1) \<Rightarrow>
          (case store (Constant 0) var_addr g1 of
             (Inl e, g2) \<Rightarrow> (Inl e, g2)
           | (Inr st, g2) \<Rightarrow>
               (case builder g2 of
                  None \<Rightarrow> (Inl (AttributeError ''builder''), g2)
                | Some b \<Rightarrow>
                    if bfunction b = ''main'' then
                      (case main_symbol_table g2 of
                         None \<Rightarrow> (Inl (AttributeError ''main_symbol_table''), g2)
                       | Some mt \<Rightarrow>
                           codegen_variable_list rest
                             (g2\<lparr>main_symbol_table := Some (mt(name \<mapsto> var_addr))\<rparr>))
                    else
                      codegen_variable_list rest
                        (g2\<lparr>function_symbol_table := (function_symbol_table g2)(name \<mapsto> var_addr)\<rparr>))))"

fun codegen_VariableDeclaration ::
  "variable_declaration \<Rightarrow> generator \<Rightarrow> (error + unit) \<times> generator" where
  "codegen_VariableDeclaration (VariableDeclaration variable_list) g =
     codegen_variable_list variable_list g"

fun codegen_declaration_list ::
  "variable_declaration list \<Rightarrow> generator \<Rightarrow> (error + unit) \<times> generator" where
  "codegen_declaration_list [] g = (Inr (), g)"
| "codegen_declaration_list (declaration # rest) g =
     (case codegen_VariableDeclaration declaration g of
        (Inl e, g1) \<Rightarrow> (Inl e, g1)
      | (Inr u, g1) \<Rightarrow> codegen_declaration_list rest g1)"

subsection \<open>Statements and blocks\<close>

text \<open>
  The items of a print list, lowered in order by the list comprehension of
  \<open>_codegen_PrintStatement\<close>, and its format string.
\<close>

fun codegen_print_list :: "print_item list \<Rightarrow> generator \<Rightarrow> (error + ir_value list) \<times> generator" where
  "codegen_print_list [] g = (Inr [], g)"
| "codegen_print_list (i # rest) g =
     (case (case i of
              Text v \<Rightarrow> codegen_Text v g
            | Expression e \<Rightarrow> codegen e g
            | NoneItem \<Rightarrow> (Inl (AttributeError ''_codegen_NoneType''), g)) of
        (Inl e, g1) \<Rightarrow> (Inl e, g1)
      | (Inr v, g1) \<Rightarrow>
          (case codegen_print_list rest g1 of
             (Inl e, g2) \<Rightarrow> (Inl e, g2)
           | (Inr vs, g2) \<Rightarrow> (Inr (v # vs), g2)))"

fun format_string :: "print_item list \<Rightarrow> string" where
  "format_string [] = []"
| "format_string (Text v # rest) = ''%s'' @ format_string rest"
| "format_string (i # rest) = float_format @ format_string rest"

text \<open>
  The first lines of \<open>_codegen_PrintStatement\<close>: \<open>printf\<close> is the global of that
  name, declared now if the module has none.
\<close>

definition declare_printf :: "generator \<Rightarrow> generator" where
  "declare_printf g =
     (case map_of (module_globals g) ''printf'' of
        Some printf \<Rightarrow> g
      | None \<Rightarrow>
          g\<lparr>module_globals := module_globals g @
              [(''printf'', Function (IntType 32) [PointerType (IntType 8)] True)]\<rparr>)"

definition printf_global :: "generator \<Rightarrow> global_value" where
  "printf_global g =
     (case map_of (module_globals g) ''printf'' of
        Some printf \<Rightarrow> printf
      | None \<Rightarrow> Function (IntType 32) [PointerType (IntType 8)] True)"

definition codegen_PrintStatement :: "print_item list \<Rightarrow> generator \<Rightarrow> (error + unit) \<times> generator" where
  "codegen_PrintStatement print_list g =
     (case ran6 (declare_printf g) of
        (r, g1) \<Rightarrow>
          (case add_global (''fstr_'' @ r) (GlobalVariable (to_cstr (format_string print_list))) g1 of
             (Inl e, g2) \<Rightarrow> (Inl e, g2)
           | (Inr global_fmt, g2) \<Rightarrow>
               (case bitcast global_fmt (PointerType (IntType 8)) g2 of
                  (Inl e, g3) \<Rightarrow> (Inl e, g3)
                | (Inr fmt_arg, g3) \<Rightarrow>
                    (case builder g3 of
                       None \<Rightarrow> (Inl (AttributeError ''builder''), g3)
                     | Some b \<Rightarrow>
                         (case codegen_print_list print_list g3 of
                            (Inl e, g4) \<Rightarrow> (Inl e, g4)
                          | (Inr vs, g4) \<Rightarrow>
                              (case call ''printf'' (printf_global g) (fmt_arg # vs) g4 of
                                 (Inl e, g5) \<Rightarrow> (Inl e, g5)
                               | (Inr c, g5) \<Rightarrow> (Inr (), g5)))))))"

text \<open>
  \<open>_codegen_AssignStatement\<close>: the target is looked up as in \<open>_codegen_ID\<close>, before
  the right-hand side is lowered.
\<close>

definition codegen_AssignStatement ::
  "string \<Rightarrow> expression \<Rightarrow> generator \<Rightarrow> (error + unit) \<times> generator" where
  "codegen_AssignStatement left_variable right_expression g =
     (case (case function_symbol_table g left_variable of
              Some var_addr \<Rightarrow> Inr var_addr
            | None \<Rightarrow>
                (case main_symbol_table g of
                   None \<Rightarrow> Inl (AttributeError ''main_symbol_table'')
                 | Some mt \<Rightarrow>
                     (case mt left_variable of
                        None \<Rightarrow> Inl (CodegenError (NameNotDefined left_variable))
                      | Some var_addr \<Rightarrow> Inr var_addr))) of
        Inl e \<Rightarrow> (Inl e, g)
      | Inr var_addr \<Rightarrow>
          (case codegen right_expression g of
             (Inl e, g1) \<Rightarrow> (Inl e, g1)
           | (Inr right_expression_value, g1) \<Rightarrow>
               (case store right_expression_value var_addr g1 of
                  (Inl e, g2) \<Rightarrow> (Inl e, g2)
                | (Inr st, g2) \<Rightarrow> (Inr (), g2))))"

definition codegen_ReturnStatement :: "expression \<Rightarrow> generator \<Rightarrow> (error + unit) \<times> generator" where
  "codegen_ReturnStatement expr g =
     (case codegen expr g of
        (Inl e, g1) \<Rightarrow> (Inl e, g1)
      | (Inr return_value, g1) \<Rightarrow>
          (case ret return_value g1 of
             (Inl e, g2) \<Rightarrow> (Inl e, g2)
           | (Inr t, g2) \<Rightarrow> (Inr (), g2)))"

text \<open>
  \<open>_codegen_IfStatement\<close>. \<open>self.builder.fcmp_ordered\<close> is looked up before its
  arguments are evaluated; then the test is lowered and compared with \<open>0.0\<close> by
  \<open>>\<close>. The new block is created by \<open>ir.Block(self.builder.block, ...)\<close>, with the
  builder's block as its parent and a \<open>ran6\<close> name.
  \<open>self.builder.append_basic_block\<close> asks the builder's function for a block: when
  the builder is already in such a block, its function is a block, which has no
  \<open>append_basic_block\<close>. Otherwise the builder moves into the new block, and
  \<open>if_else\<close> asks the builder's function for the blocks of the arms: that function
  is now the old block, and the same \<open>AttributeError\<close> is raised. Neither arm is
  lowered.
\<close>

definition codegen_IfStatement :: "expression \<Rightarrow> generator \<Rightarrow> (error + unit) \<times> generator" where
  "codegen_IfStatement test g =
     (case builder g of
        None \<Rightarrow> (Inl (AttributeError ''builder''), g)
      | Some b0 \<Rightarrow>
          (case codegen test g of
             (Inl e, g1) \<Rightarrow> (Inl e, g1)
           | (Inr v, g1) \<Rightarrow>
               (case fcmp_ordered ''>'' v (Constant 0) g1 of
                  (Inl e, g2) \<Rightarrow> (Inl e, g2)
                | (Inr test_gt_0, g2) \<Rightarrow>
                    (case ran6 g2 of
                       (r, g3) \<Rightarrow>
                         (case builder g3 of
                            None \<Rightarrow> (Inl (AttributeError ''builder''), g3)
                          | Some b \<Rightarrow>
                              if bdetached b then (Inl (AttributeError ''append_basic_block''), g3)
                              else
                                (Inl (AttributeError ''append_basic_block''),
                                 g3\<lparr>builder := Some \<lparr>bfunction = bblock b, bblock = ''if_stmt'' @ r,
                                                      bdetached = True, bterminated = False\<rparr>\<rparr>))))))"

text \<open>
  \<open>_codegen\<close> on a statement (\<open>_codegen_WhileStatement\<close> is its assertion only),
  \<open>_codegen_Block\<close> and its loop over the statements.
\<close>

fun codegen_statement :: "statement \<Rightarrow> generator \<Rightarrow> (error + unit) \<times> generator" where
  "codegen_statement (AssignStatement left_variable right_expression) g =
     codegen_AssignStatement left_variable right_expression g"
| "codegen_statement (ReturnStatement expr) g = codegen_ReturnStatement expr g"
| "codegen_statement (PrintStatement print_list) g = codegen_PrintStatement print_list g"
| "codegen_statement (WhileStatement test body) g = (Inr (), g)"
| "codegen_statement (IfStatement test then_block else_block) g = codegen_IfStatement test g"

fun codegen_statement_list :: "statement list \<Rightarrow> generator \<Rightarrow> (error + unit) \<times> generator" where
  "codegen_statement_list [] g = (Inr (), g)"
| "codegen_statement_list (s # rest) g =
     (case codegen_statement s g of
        (Inl e, g1) \<Rightarrow> (Inl e, g1)
      | (Inr u, g1) \<Rightarrow> codegen_statement_list rest g1)"

fun codegen_Block :: "block \<Rightarrow> generator \<Rightarrow> (error + unit) \<times> generator" where
  "codegen_Block (Block declaration_list statement_list) g =
     (case codegen_declaration_list declaration_list g of
        (Inl e, g1) \<Rightarrow> (Inl e, g1)
      | (Inr u, g1) \<Rightarrow> codegen_statement_list statement_list g1)"

subsection \<open>Function definitions and programs\<close>

text \<open>
  The loop of \<open>_codegen_FunctionDefinition\<close> over \<open>func.args\<close>: an alloca for the
  argument, the store of the incoming value, the entry in the function scope.
\<close>

fun codegen_parameters :: "string \<Rightarrow> nat \<Rightarrow> string list \<Rightarrow> generator \<Rightarrow> (error + unit) \<times> generator" where
  "codegen_parameters function_name i [] g = (Inr (), g)"
| "codegen_parameters function_name i (p # rest) g =
     (case alloca p g of
        (Inl e, g1) \<Rightarrow> (Inl e, g1)
      | (Inr var_addr, g1) \<Rightarrow>
          (case store (Argument function_name i) var_addr g1 of
             (Inl e, g2) \<Rightarrow> (Inl e, g2)
           | (Inr st, g2) \<Rightarrow>
               codegen_parameters function_name (Suc i) rest
                 (g2\<lparr>function_symbol_table := (function_symbol_table g2)(p \<mapsto> var_addr)\<rparr>)))"

text \<open>
  \<open>new_function\<close> is the state after the first half of
  \<open>_codegen_FunctionDefinition\<close>: the function is in the module and the function
  scope is reset. The builder is read (to be stored) only after that. The function
  scope is reset again and the builder restored only when the body and the final
  \<open>ret\<close> of \<open>0.0\<close> have raised nothing.
\<close>

definition new_function :: "string \<Rightarrow> nat \<Rightarrow> generator \<Rightarrow> generator" where
  "new_function function_name n g =
     g\<lparr>module_globals := module_globals g @
          [(function_name, Function DoubleType (replicate n DoubleType) False)],
       function_symbol_table := Map.empty\<rparr>"

fun codegen_FunctionDefinition ::
  "function_definition \<Rightarrow> generator \<Rightarrow> (error + ir_value) \<times> generator" where
  "codegen_FunctionDefinition (FunctionDefinition function_name parameter_list body) g =
     (if function_name \<in> global_names g then
        (Inl (CodegenError (RedefinitionOfFunction function_name)), g)
      else
        (case builder g of
           None \<Rightarrow>
             (Inl (AttributeError ''builder''), new_function function_name (length parameter_list) g)
         | Some stored_builder \<Rightarrow>
             (case codegen_parameters function_name 0 parameter_list
                     ((new_function function_name (length parameter_list) g)
                        \<lparr>builder := Some \<lparr>bfunction = function_name, bblock = ''entry'',
                                            bdetached = False, bterminated = False\<rparr>\<rparr>) of
                (Inl e, g1) \<Rightarrow> (Inl e, g1)
              | (Inr u, g1) \<Rightarrow>
                  (case codegen_Block body g1 of
                     (Inl e, g2) \<Rightarrow> (Inl e, g2)
                   | (Inr u, g2) \<Rightarrow>
                       (case ret (Constant 0) g2 of
                          (Inl e, g3) \<Rightarrow> (Inl e, g3)
                        | (Inr t, g3) \<Rightarrow>
                            (Inr (Global function_name),
                             g3\<lparr>function_symbol_table := Map.empty,
                                builder := Some stored_builder\<rparr>))))))"

fun codegen_function_list :: "function_definition list \<Rightarrow> generator \<Rightarrow> (error + unit) \<times> generator" where
  "codegen_function_list [] g = (Inr (), g)"
| "codegen_function_list (i # rest) g =
     (case codegen_FunctionDefinition i g of
        (Inl e, g1) \<Rightarrow> (Inl e, g1)
      | (Inr func, g1) \<Rightarrow> codegen_function_list rest g1)"

fun codegen_Program :: "program \<Rightarrow> generator \<Rightarrow> (error + unit) \<times> generator" where
  "codegen_Program (Program function_list) g = codegen_function_list function_list g"

text \<open>
  \<open>generate_code\<close>: the root is a list of function definitions or a \<open>Block\<close> (what
  the shell parses a line to), or a \<open>Program\<close>.
\<close>

datatype root = ProgramRoot program | BlockRoot block | ListRoot "function_definition list"

fun generate_code :: "root \<Rightarrow> generator \<Rightarrow> (error + unit) \<times> generator" where
  "generate_code (ListRoot fs) g = codegen_function_list fs g"
| "generate_code (ProgramRoot p) g = codegen_Program p g"
| "generate_code (BlockRoot b) g = codegen_Block b g"

section \<open>Sessions and scopes\<close>

text \<open>
  The global scope at a name (nothing when the attribute does not exist), and the
  symbol table a declaration writes to: the one \<open>_codegen_VariableDeclaration\<close>
  picks by the name of the builder's function.
\<close>

definition main_lookup :: "generator \<Rightarrow> string \<Rightarrow> ir_value option" where
  "main_lookup g n = (case main_symbol_table g of None \<Rightarrow> None | Some mt \<Rightarrow> mt n)"

definition active_tier :: "generator \<Rightarrow> (string \<rightharpoonup> ir_value)" where
  "active_tier g =
     (case builder g of
        None \<Rightarrow> Map.empty
      | Some b \<Rightarrow>
          if bfunction b = ''main'' then (case main_symbol_table g of None \<Rightarrow> Map.empty | Some mt \<Rightarrow> mt)
          else function_symbol_table g)"

text \<open>
  The store of a lowered value at an address, as \<open>_codegen_AssignStatement\<close> ends.
\<close>

definition store_to :: "ir_value \<Rightarrow> (error + ir_value) \<times> generator \<Rightarrow> (error + unit) \<times> generator" where
  "store_to var_addr lowered =
     (case lowered of
        (Inl e, g1) \<Rightarrow> (Inl e, g1)
      | (Inr v, g1) \<Rightarrow>
          (case store v var_addr g1 of
             (Inl e, g2) \<Rightarrow> (Inl e, g2)
           | (Inr st, g2) \<Rightarrow> (Inr (), g2)))"

text \<open>
  A session: \<open>generate_code\<close> called on one root after the other, on the generator
  as the previous call left it, whether that call returned or raised.
\<close>

fun run :: "root list \<Rightarrow> generator \<Rightarrow> generator" where
  "run [] g = g"
| "run (node # rest) g = run rest (snd (generate_code node g))"

text \<open>No global of the module is lost from one state to a later one.\<close>

definition keeps_globals :: "generator \<Rightarrow> generator \<Rightarrow> bool" where
  "keeps_globals g0 g \<longleftrightarrow> global_names g0 \<subseteq> global_names g"

subsection \<open>Example inputs\<close>

text \<open>
  An environment whose random names are \<open>AAAAAA\<close>, \<open>AAAAAB\<close>, \<open>AAAAAC\<close>, ...,
  and whose codec returns a text without a backslash as it is, as Python's does for
  ASCII text, and refuses any other (the examples lower no other); a generator in
  shell mode and one in compile mode; the token \<open>"yes"\<close> as the lexer hands it
  over, quotes included; and the shell lines \<open>VAR x\<close> and
  \<open>FUNC f(x) { RETURN y }\<close>.
\<close>

definition names6 :: environment where
  "names6 =
     \<lparr>ran6_draws = (\<lambda>n. if n = 0 then ''AAAAAA'' else if n = 1 then ''AAAAAB'' else ''AAAAAC''),
      unicode_escape = (\<lambda>s. if CHR 0x5C \<in> set s then None else Some s)\<rparr>"

definition shell0 :: generator where
  "shell0 = LLVMCodeGenerator_init Shell names6"

definition compile0 :: generator where
  "compile0 = LLVMCodeGenerator_init Compile names6"

definition yes_text :: string where
  "yes_text = CHR 0x22 # ''yes'' @ [CHR 0x22]"

definition declare_x :: root where
  "declare_x = BlockRoot (Block [VariableDeclaration [''x'']] [])"

definition bad_function :: root where
  "bad_function = ListRoot [FunctionDefinition ''f'' [''x''] (Block [] [ReturnStatement (ID False ''y'')])]"

section \<open>The globals of the module are kept\<close>

text \<open>
  Nothing in codegen.py removes a global from the module: every step of lowering
  leaves the names the module had.
\<close>

lemma keeps_refl: "keeps_globals g g"
  by (simp add: keeps_globals_def)

lemma keeps_same:
  "keeps_globals g0 g \<Longrightarrow> module_globals g' = module_globals g \<Longrightarrow> keeps_globals g0 g'"
  by (simp add: keeps_globals_def global_names_def)

lemma keeps_more:
  "keeps_globals g0 g \<Longrightarrow> module_globals g' = module_globals g @ ext \<Longrightarrow> keeps_globals g0 g'"
  by (auto simp: keeps_globals_def global_names_def)

lemma keeps_insert_instruction:
  assumes "insert_instruction i g = (r, g')" and "keeps_globals g0 g"
  shows "keeps_globals g0 g'"
  using assms(2) by (rule keeps_same) (use assms(1) in \<open>auto simp: insert_instruction_def split: option.splits\<close>)

lemma keeps_alloca:
  "alloca name g = (r, g') \<Longrightarrow> keeps_globals g0 g \<Longrightarrow> keeps_globals g0 g'"
  unfolding alloca_def by (rule keeps_insert_instruction)

lemma keeps_fcmp_ordered:
  "fcmp_ordered c l r g = (res, g') \<Longrightarrow> keeps_globals g0 g \<Longrightarrow> keeps_globals g0 g'"
  unfolding fcmp_ordered_def by (rule keeps_insert_instruction)

lemma keeps_bitcast:
  "bitcast v t g = (r, g') \<Longrightarrow> keeps_globals g0 g \<Longrightarrow> keeps_globals g0 g'"
  unfolding bitcast_def by (rule keeps_insert_instruction)

lemma keeps_store:
  "store v p g = (r, g') \<Longrightarrow> keeps_globals g0 g \<Longrightarrow> keeps_globals g0 g'"
  unfolding store_def
  by (auto split: option.splits ir_type.splits if_splits intro: keeps_insert_instruction)

lemma keeps_load:
  "load p n g = (r, g') \<Longrightarrow> keeps_globals g0 g \<Longrightarrow> keeps_globals g0 g'"
  unfolding load_def
  by (auto split: option.splits ir_type.splits if_splits intro: keeps_insert_instruction)

lemma keeps_arithmetic:
  "arithmetic instr l r g = (res, g') \<Longrightarrow> keeps_globals g0 g \<Longrightarrow> keeps_globals g0 g'"
  unfolding arithmetic_def
  by (auto split: option.splits if_splits intro: keeps_insert_instruction)

lemma keeps_call:
  "call name fn args g = (r, g') \<Longrightarrow> keeps_globals g0 g \<Longrightarrow> keeps_globals g0 g'"
  unfolding call_def
  by (auto split: option.splits global_value.splits intro: keeps_insert_instruction)

lemma keeps_ret:
  assumes "ret v g = (r, g')" and "keeps_globals g0 g"
  shows "keeps_globals g0 g'"
  using assms(2) by (rule keeps_same) (use assms(1) in \<open>auto simp: ret_def split: option.splits if_splits\<close>)

lemma keeps_ran6:
  assumes "ran6 g = (r, g')" and "keeps_globals g0 g"
  shows "keeps_globals g0 g'"
  using assms(2) by (rule keeps_same) (use assms(1) in \<open>auto simp: ran6_def\<close>)

lemma keeps_add_global:
  assumes "add_global n v g = (r, g')" and "keeps_globals g0 g"
  shows "keeps_globals g0 g'"
  using assms(2) by (rule keeps_more [where ext = "if n \<in> global_names g then [] else [(n, v)]"])
    (use assms(1) in \<open>auto simp: add_global_def split: if_splits\<close>)

lemma keeps_declare_printf:
  assumes "keeps_globals g0 g"
  shows "keeps_globals g0 (declare_printf g)"
  using assms by (rule keeps_more [where ext = "case map_of (module_globals g) ''printf'' of
      None \<Rightarrow> [(''printf'', Function (IntType 32) [PointerType (IntType 8)] True)] | Some p \<Rightarrow> []"])
    (auto simp: declare_printf_def split: option.splits)

lemma keeps_function_symbol_table:
  assumes "keeps_globals g0 g"
  shows "keeps_globals g0 (g\<lparr>function_symbol_table := t\<rparr>)"
  using assms by (rule keeps_same) simp

lemma keeps_main_symbol_table:
  assumes "keeps_globals g0 g"
  shows "keeps_globals g0 (g\<lparr>main_symbol_table := t\<rparr>)"
  using assms by (rule keeps_same) simp

lemma keeps_builder:
  assumes "keeps_globals g0 g"
  shows "keeps_globals g0 (g\<lparr>builder := b\<rparr>)"
  using assms by (rule keeps_same) simp

lemma keeps_codegen_ID:
  "codegen_ID n g = (r, g') \<Longrightarrow> keeps_globals g0 g \<Longrightarrow> keeps_globals g0 g'"
  by (auto simp: codegen_ID_def split: option.splits intro: keeps_load)

lemma keeps_codegen:
  "codegen e g = (r, g') \<Longrightarrow> keeps_globals g0 g \<Longrightarrow> keeps_globals g0 g'"
  "codegen_arguments es g = (rs, g') \<Longrightarrow> keeps_globals g0 g \<Longrightarrow> keeps_globals g0 g'"
proof (induction e g and es g arbitrary: r g' and rs g' rule: codegen_codegen_arguments.induct)
  case (1 f v g)
  then show ?case by (simp add: codegen_Number_def)
next
  case (2 f name g)
  then show ?case by (auto intro: keeps_codegen_ID)
next
  case (3 f l operator r g)
  then show ?case
    by (auto split: prod.splits sum.splits option.splits if_splits intro: keeps_arithmetic)
next
  case (4 f name argument_list g)
  then show ?case
    by (auto split: prod.splits sum.splits option.splits if_splits global_value.splits intro: keeps_call)
next
  case (5 g)
  then show ?case by simp
next
  case (6 arg rest g)
  then show ?case
    by (auto split: prod.splits sum.splits)
qed

lemma keeps_codegen_Text:
  "codegen_Text v g = (r, g') \<Longrightarrow> keeps_globals g0 g \<Longrightarrow> keeps_globals g0 g'"
  unfolding codegen_Text_def
  by (auto split: prod.splits sum.splits option.splits;
      blast intro: keeps_bitcast keeps_add_global keeps_ran6)

lemma keeps_codegen_print_list:
  "codegen_print_list items g = (r, g') \<Longrightarrow> keeps_globals g0 g \<Longrightarrow> keeps_globals g0 g'"
proof (induction items arbitrary: g r g')
  case Nil
  then show ?case by simp
next
  case (Cons i rest)
  from Cons.prems show ?case
    by (auto split: prod.splits sum.splits print_item.splits;
        blast intro: Cons.IH keeps_codegen_Text keeps_codegen(1))
qed

lemma keeps_PrintStatement_declared:
  assumes "codegen_PrintStatement items g = (r, g')" and "keeps_globals g0 (declare_printf g)"
  shows "keeps_globals g0 g'"
proof -
  obtain x g1 where r: "ran6 (declare_printf g) = (x, g1)"
    by (cases "ran6 (declare_printf g)")
  have f1: "keeps_globals g0 g1"
    using keeps_ran6 [OF r assms(2)] .
  from assms(1) r f1 show ?thesis
    unfolding codegen_PrintStatement_def
    by (auto split: prod.splits sum.splits option.splits;
        blast intro: keeps_bitcast keeps_call keeps_add_global keeps_codegen_print_list)
qed

lemma keeps_codegen_PrintStatement:
  "codegen_PrintStatement items g = (r, g') \<Longrightarrow> keeps_globals g0 g \<Longrightarrow> keeps_globals g0 g'"
  using keeps_PrintStatement_declared keeps_declare_printf by blast

lemma keeps_codegen_AssignStatement:
  "codegen_AssignStatement x e g = (r, g') \<Longrightarrow> keeps_globals g0 g \<Longrightarrow> keeps_globals g0 g'"
  unfolding codegen_AssignStatement_def
  by (auto split: prod.splits sum.splits option.splits; blast intro: keeps_store keeps_codegen(1))

lemma keeps_codegen_ReturnStatement:
  "codegen_ReturnStatement e g = (r, g') \<Longrightarrow> keeps_globals g0 g \<Longrightarrow> keeps_globals g0 g'"
  unfolding codegen_ReturnStatement_def
  by (auto split: prod.splits sum.splits option.splits; blast intro: keeps_ret keeps_codegen(1))

lemma keeps_codegen_IfStatement:
  "codegen_IfStatement e g = (r, g') \<Longrightarrow> keeps_globals g0 g \<Longrightarrow> keeps_globals g0 g'"
  unfolding codegen_IfStatement_def
  by (auto split: prod.splits sum.splits option.splits if_splits;
      blast intro: keeps_fcmp_ordered keeps_codegen(1) keeps_ran6 keeps_builder)

lemma keeps_codegen_statement:
  "codegen_statement s g = (r, g') \<Longrightarrow> keeps_globals g0 g \<Longrightarrow> keeps_globals g0 g'"
  by (cases s)
    (auto intro: keeps_codegen_AssignStatement keeps_codegen_ReturnStatement
      keeps_codegen_PrintStatement keeps_codegen_IfStatement)

lemma keeps_codegen_statement_list:
  "codegen_statement_list ss g = (r, g') \<Longrightarrow> keeps_globals g0 g \<Longrightarrow> keeps_globals g0 g'"
proof (induction ss arbitrary: g)
  case Nil
  then show ?case by simp
next
  case (Cons s rest)
  from Cons.prems show ?case
    by (auto split: prod.splits sum.splits; blast intro: Cons.IH keeps_codegen_statement)
qed

lemma keeps_codegen_variable_list:
  "codegen_variable_list names g = (r, g') \<Longrightarrow> keeps_globals g0 g \<Longrightarrow> keeps_globals g0 g'"
proof (induction names arbitrary: g)
  case Nil
  then show ?case by simp
next
  case (Cons name rest)
  from Cons.prems show ?case
    by (auto split: prod.splits sum.splits option.splits if_splits;
        blast intro: Cons.IH keeps_alloca keeps_store keeps_main_symbol_table keeps_function_symbol_table)
qed

lemma keeps_codegen_declaration_list:
  "codegen_declaration_list ds g = (r, g') \<Longrightarrow> keeps_globals g0 g \<Longrightarrow> keeps_globals g0 g'"
proof (induction ds arbitrary: g)
  case Nil
  then show ?case by simp
next
  case (Cons d rest)
  obtain vs where d: "d = VariableDeclaration vs" by (cases d)
  from Cons.prems show ?case
    unfolding d
    by (auto split: prod.splits sum.splits;
        blast intro: Cons.IH keeps_codegen_variable_list)
qed

lemma keeps_codegen_Block:
  "codegen_Block b g = (r, g') \<Longrightarrow> keeps_globals g0 g \<Longrightarrow> keeps_globals g0 g'"
  by (cases b)
    (auto split: prod.splits sum.splits;
      blast intro: keeps_codegen_declaration_list keeps_codegen_statement_list)

lemma keeps_codegen_parameters:
  "codegen_parameters fn i ps g = (r, g') \<Longrightarrow> keeps_globals g0 g \<Longrightarrow> keeps_globals g0 g'"
proof (induction ps arbitrary: g i)
  case Nil
  then show ?case by simp
next
  case (Cons p rest)
  from Cons.prems show ?case
    by (auto split: prod.splits sum.splits;
        blast intro: Cons.IH keeps_alloca keeps_store keeps_function_symbol_table)
qed

lemma keeps_new_function:
  assumes "keeps_globals g0 g"
  shows "keeps_globals g0 (new_function fn n g)"
  using assms
  by (rule keeps_more [where ext = "[(fn, Function DoubleType (replicate n DoubleType) False)]"])
    (simp add: new_function_def)

lemma keeps_codegen_FunctionDefinition:
  assumes c: "codegen_FunctionDefinition fd g = (r, g')" and k: "keeps_globals g0 g"
  shows "keeps_globals g0 g'"
proof -
  obtain fn ps body where fd: "fd = FunctionDefinition fn ps body" by (cases fd)
  let ?n = "new_function fn (length ps) g"
  have kn: "keeps_globals g0 ?n" using k by (rule keeps_new_function)
  show ?thesis
  proof (cases "fn \<in> global_names g")
    case True
    then show ?thesis using c k fd by simp
  next
    case False
    note new = this
    show ?thesis
    proof (cases "builder g")
      case None
      then show ?thesis using c kn fd new by simp
    next
      case (Some sb)
      let ?s = "?n\<lparr>builder := Some \<lparr>bfunction = fn, bblock = ''entry'',
                                       bdetached = False, bterminated = False\<rparr>\<rparr>"
      have ks: "keeps_globals g0 ?s" using kn by (rule keeps_builder)
      obtain rp g1 where p: "codegen_parameters fn 0 ps ?s = (rp, g1)"
        by (cases "codegen_parameters fn 0 ps ?s")
      have k1: "keeps_globals g0 g1" using keeps_codegen_parameters [OF p ks] .
      show ?thesis
      proof (cases rp)
        case (Inl e)
        then show ?thesis using c fd new Some p k1 by simp
      next
        case (Inr u)
        note rp = this
        obtain rb g2 where b: "codegen_Block body g1 = (rb, g2)" by (cases "codegen_Block body g1")
        have k2: "keeps_globals g0 g2" using keeps_codegen_Block [OF b k1] .
        show ?thesis
        proof (cases rb)
          case (Inl e)
          then show ?thesis using c fd new Some p rp b k2 by simp
        next
          case (Inr u2)
          note rb = this
          obtain rr g3 where t: "ret (Constant 0) g2 = (rr, g3)" by (cases "ret (Constant 0) g2")
          have k3: "keeps_globals g0 g3" using keeps_ret [OF t k2] .
          have "keeps_globals g0 (g3\<lparr>function_symbol_table := Map.empty, builder := Some sb\<rparr>)"
            using k3 by (rule keeps_same) simp
          then show ?thesis using c fd new Some p rp b rb t k3 by (cases rr) auto
        qed
      qed
    qed
  qed
qed

lemma keeps_codegen_function_list:
  "codegen_function_list fs g = (r, g') \<Longrightarrow> keeps_globals g0 g \<Longrightarrow> keeps_globals g0 g'"
proof (induction fs arbitrary: g)
  case Nil
  then show ?case by simp
next
  case (Cons fd rest)
  from Cons.prems show ?case
    by (auto split: prod.splits sum.splits simp del: codegen_FunctionDefinition.simps;
        blast intro: Cons.IH keeps_codegen_FunctionDefinition)
qed

lemma keeps_generate_code: "keeps_globals g (snd (generate_code node g))"
proof (cases node)
  case (ProgramRoot p)
  obtain fs where p: "p = Program fs" by (cases p)
  show ?thesis
    using keeps_codegen_function_list [of fs g "fst (codegen_function_list fs g)"
        "snd (codegen_function_list fs g)" g] ProgramRoot p
    by (simp add: keeps_refl)
next
  case (BlockRoot b)
  show ?thesis
    using keeps_codegen_Block [of b g "fst (codegen_Block b g)" "snd (codegen_Block b g)" g] BlockRoot
    by (simp add: keeps_refl)
next
  case (ListRoot fs)
  show ?thesis
    using keeps_codegen_function_list [of fs g "fst (codegen_function_list fs g)"
        "snd (codegen_function_list fs g)" g] ListRoot
    by (simp add: keeps_refl)
qed

lemma run_names: "global_names g \<subseteq> global_names (run nodes g)"
proof (induction nodes arbitrary: g)
  case Nil
  show ?case by simp
next
  case (Cons node rest)
  show ?case
    using keeps_generate_code [of g node] Cons.IH [of "snd (generate_code node g)"]
    by (auto simp: keeps_globals_def)
qed

lemma printf_declared: "''printf'' \<in> global_names (snd (codegen_statement (PrintStatement items) g))"
proof -
  have "''printf'' \<in> global_names (declare_printf g)"
    by (auto simp: declare_printf_def global_names_def split: option.splits dest: map_of_SomeD
        intro: rev_image_eqI)
  moreover have "keeps_globals (declare_printf g) (snd (codegen_PrintStatement items g))"
    using keeps_PrintStatement_declared [of items g "fst (codegen_PrintStatement items g)"
          "snd (codegen_PrintStatement items g)" "declare_printf g"]
    by (simp add: keeps_refl)
  ultimately show ?thesis by (auto simp: keeps_globals_def)
qed

lemma redefinition: "fn \<in> global_names g \<Longrightarrow>
  codegen_FunctionDefinition (FunctionDefinition fn ps body) g =
    (Inl (CodegenError (RedefinitionOfFunction fn)), g)"
  by simp

section \<open>The claims\<close>

lemmas eval_defs = shell0_def compile0_def names6_def LLVMCodeGenerator_init_def main_function_name_def
  insert_instruction_def alloca_def store_def load_def arithmetic_def fcmp_ordered_def bitcast_def
  call_def ret_def type_of_def ran6_def add_global_def global_names_def get_global_def to_cstr_def
  strip_quotes_def codegen_Number_def codegen_Text_def codegen_ID_def codegen_PrintStatement_def
  declare_printf_def printf_global_def codegen_AssignStatement_def codegen_ReturnStatement_def
  codegen_IfStatement_def float_format_def new_function_def yes_text_def declare_x_def bad_function_def

text \<open>
  Facts beside the claims. Every \<open>If\<close> statement raises, whatever its arms. A
  call with an explicit argument list of the wrong length raises the
  \<open>CodegenError\<close>, before any argument is lowered. With a global scope, an
  identifier that is read or assigned to is looked up in the function scope first
  (with an entry there, the global scope may hold anything or not exist), then in
  the global scope, and a name in neither raises the \<open>CodegenError\<close> "name is not
  defined" and leaves the state as it was. A function whose body returns raises
  \<open>AssertionError\<close> at the final \<open>ret\<close> of \<open>0.0\<close>, and so does \<open>RETURN\<close> at the
  shell, whose block has its \<open>ret void\<close> from the start. An expression is lowered
  to the same value whatever its \<open>minus_flag\<close>.
\<close>

lemma If_raises:
  "fst (codegen_statement (IfStatement test then_block else_block) g) \<noteq> Inr ()"
  by (simp add: codegen_IfStatement_def split: prod.splits sum.splits option.splits)

lemma arity_mismatch_with_arguments:
  "get_global name g = Inr (Function return_type args var_arg) \<Longrightarrow> length args \<noteq> length al \<Longrightarrow>
   codegen (FunctionCall f name (Some al)) g =
     (Inl (CodegenError (CallArgumentLengthMismatch (length al) name)), g)"
  by simp

lemma resolution_with_global_tier:
  "(function_symbol_table g x = Some a \<longrightarrow>
      codegen_ID x (g\<lparr>main_symbol_table := t\<rparr>) = load a x (g\<lparr>main_symbol_table := t\<rparr>) \<and>
      codegen_AssignStatement x e (g\<lparr>main_symbol_table := t\<rparr>) =
        store_to a (codegen e (g\<lparr>main_symbol_table := t\<rparr>))) \<and>
   (function_symbol_table g x = None \<and> main_symbol_table g = Some mt \<and> mt x = Some a \<longrightarrow>
      codegen_ID x g = load a x g \<and>
      codegen_AssignStatement x e g = store_to a (codegen e g)) \<and>
   (function_symbol_table g x = None \<and> main_symbol_table g = Some mt \<and> mt x = None \<longrightarrow>
      codegen_ID x g = (Inl (CodegenError (NameNotDefined x)), g) \<and>
      codegen_AssignStatement x e g = (Inl (CodegenError (NameNotDefined x)), g))"
  by (simp add: codegen_ID_def codegen_AssignStatement_def store_to_def)

lemma Return_in_function_raises:
  "fst (generate_code
      (ListRoot [FunctionDefinition ''add'' [''a'', ''b'']
         (Block [] [ReturnStatement (BinaryOperation False (ID False ''a'') ''+'' (Some (ID False ''b'')))])])
      shell0) = Inl AssertionError"
  by (simp add: eval_defs)

lemma Return_at_the_shell_raises:
  "fst (generate_code (BlockRoot (Block [] [ReturnStatement (Number False 1)])) shell0) = Inl AssertionError"
  by (simp add: eval_defs)

lemma codegen_change_minus_flag: "codegen (change_minus_flag e) g = codegen e g"
  by (cases e) simp_all

text \<open>
  C1 (the code departs from the claim). A \<open>Program\<close> is lowered by a generator in
  compile mode (\<open>_compile\<close> of vslc.py). Such a generator has no builder:
  \<open>_codegen_FunctionDefinition\<close> reads \<open>self.builder\<close>, to store it, before it
  creates one, and raises \<open>AttributeError\<close>. Lowering fails at the first function
  definition of every program.
\<close>

theorem compile_mode_program:
  "fst (generate_code (ProgramRoot (Program (fd # fds))) (LLVMCodeGenerator_init Compile rnd)) =
     Inl (AttributeError ''builder'')"
  by (cases fd) (simp add: LLVMCodeGenerator_init_def global_names_def)


text \<open>
  C3 (the code departs from the claim). \<open>IF 0 THEN PRINT "yes" FI\<close> at the shell:
  the test is lowered and compared, the builder moves into the block created with
  a block as its parent, and \<open>if_else\<close> raises \<open>AttributeError\<close>. Lowering does
  not return; nothing of the then block has been lowered (the module has no
  \<open>printf\<close>), and the only new instruction is the comparison.
\<close>

theorem if_statement_raises:
  "fst (generate_code
      (BlockRoot (Block [] [IfStatement (Number False 0) (Block [] [PrintStatement [Text yes_text]]) None]))
      shell0) = Inl (AttributeError ''append_basic_block'') \<and>
   module_globals (snd (generate_code
      (BlockRoot (Block [] [IfStatement (Number False 0) (Block [] [PrintStatement [Text yes_text]]) None]))
      shell0)) = module_globals shell0 \<and>
   map snd (instructions (snd (generate_code
      (BlockRoot (Block [] [IfStatement (Number False 0) (Block [] [PrintStatement [Text yes_text]]) None]))
      shell0))) = [RetVoid, FCmpOrdered ''>'' (Constant 0) (Constant 0)]"
  by (simp add: eval_defs)

text \<open>
  C4 (the code departs from the claim). A call of the undefined \<open>foo\<close>:
  \<open>module.get_global\<close> raises \<open>KeyError\<close> before the test that would raise the
  \<open>CodegenError\<close> "Call to unknown function" is reached.
\<close>

theorem call_to_undefined_function:
  "fst (generate_code (BlockRoot (Block [] [ReturnStatement (FunctionCall False ''foo'' None)])) shell0) =
     Inl (KeyError ''foo'')"
  by (simp add: eval_defs)

text \<open>
  C5 (the code departs from the claim). After \<open>FUNC f(a) { }\<close>, the call \<open>f()\<close>:
  the parser leaves \<open>argument_list\<close> as \<open>None\<close>, the counts differ, and building
  the \<open>CodegenError\<close> evaluates \<open>len(node.argument_list)\<close>, which raises
  \<open>TypeError\<close>.
\<close>

theorem call_without_arguments:
  "fst (generate_code (BlockRoot (Block [] [ReturnStatement (FunctionCall False ''f'' None)]))
     (run [ListRoot [FunctionDefinition ''f'' [''a''] (Block [] [])]] shell0)) = Inl (TypeError ''len'')"
  by (simp add: eval_defs)

text \<open>
  C6 (corrected). A declaration never reuses a storage location. For a generator
  with a builder (and a global scope when the builder works on \<open>main\<close>), lowering
  the declaration of a name returns, creates one new alloca and the store of \<open>0.0\<close>
  to it, and binds the name in the active scope to that new alloca, which is none of
  the instructions created before; the other entries of the scope stay. The scope
  has one entry for the name, the module one location per declaration.
\<close>

theorem redeclaration_allocates:
  assumes "builder g = Some b" and "bfunction b = ''main'' \<longrightarrow> main_symbol_table g \<noteq> None"
  shows "fst (codegen_VariableDeclaration (VariableDeclaration [name]) g) = Inr () \<and>
    instructions (snd (codegen_VariableDeclaration (VariableDeclaration [name]) g)) =
      instructions g @ [(b, Alloca name), (b, Store (Constant 0) (Instruction (length (instructions g))))] \<and>
    active_tier (snd (codegen_VariableDeclaration (VariableDeclaration [name]) g)) =
      (active_tier g)(name \<mapsto> Instruction (length (instructions g))) \<and>
    (\<forall>i < length (instructions g).
       active_tier (snd (codegen_VariableDeclaration (VariableDeclaration [name]) g)) name \<noteq>
         Some (Instruction i))"
  using assms
  by (auto simp: alloca_def store_def insert_instruction_def type_of_def active_tier_def)

theorem redeclaration_allocates_witness:
  "fst (codegen_VariableDeclaration (VariableDeclaration [''x'']) (run [declare_x] shell0)) = Inr () \<and>
   active_tier (run [declare_x] shell0) ''x'' = Some (Instruction 1) \<and>
   active_tier (snd (codegen_VariableDeclaration (VariableDeclaration [''x'']) (run [declare_x] shell0))) ''x'' =
     Some (Instruction 3) \<and>
   map snd (instructions (snd (codegen_VariableDeclaration (VariableDeclaration [''x'']) (run [declare_x] shell0)))) =
     [RetVoid, Alloca ''x'', Store (Constant 0) (Instruction 1),
      Alloca ''x'', Store (Constant 0) (Instruction 3)]"
proof -
  have b: "builder (run [declare_x] shell0) =
      Some \<lparr>bfunction = ''main'', bblock = ''entry'', bdetached = False, bterminated = True\<rparr>"
    by (simp add: eval_defs)
  have m: "bfunction \<lparr>bfunction = ''main'', bblock = ''entry'', bdetached = False, bterminated = True\<rparr> = ''main'' \<longrightarrow>
      main_symbol_table (run [declare_x] shell0) \<noteq> None"
    by (simp add: eval_defs)
  have i: "map snd (instructions (run [declare_x] shell0)) =
      [RetVoid, Alloca ''x'', Store (Constant 0) (Instruction 1)]"
    and a: "active_tier (run [declare_x] shell0) ''x'' = Some (Instruction 1)"
    by (simp_all add: eval_defs active_tier_def)
  have l: "length (instructions (run [declare_x] shell0)) = 3"
    using arg_cong [OF i, of length] by simp
  show ?thesis
    using redeclaration_allocates [OF b m, of "''x''"] i a l by simp
qed

theorem redeclaration_counterexample:
  "main_lookup (run [declare_x] shell0) ''x'' = Some (Instruction 1) \<and>
   main_lookup (run [declare_x, declare_x] shell0) ''x'' = Some (Instruction 3) \<and>
   map snd (instructions (run [declare_x, declare_x] shell0)) =
     [RetVoid, Alloca ''x'', Store (Constant 0) (Instruction 1),
      Alloca ''x'', Store (Constant 0) (Instruction 3)]"
  by (simp add: eval_defs main_lookup_def)

text \<open>
  C7 (the code departs from the claim). After \<open>VAR x\<close>, the definition
  \<open>FUNC f(x) { RETURN y }\<close> raises the \<open>CodegenError\<close> for \<open>y\<close>. The exception
  skips the reset of the function scope and the restoring of the builder: the
  function scope still holds the parameter \<open>x\<close>, a read of \<open>x\<close>, which loaded from
  the location \<open>VAR x\<close> created, now loads from the parameter's, and the builder
  still works on \<open>f\<close>.
\<close>

theorem failed_function_keeps_function_tier:
  "fst (generate_code bad_function (run [declare_x] shell0)) = Inl (CodegenError (NameNotDefined ''y'')) \<and>
   codegen_ID ''x'' (run [declare_x] shell0) = load (Instruction 1) ''x'' (run [declare_x] shell0) \<and>
   main_lookup (run [declare_x, bad_function] shell0) ''x'' = Some (Instruction 1) \<and>
   function_symbol_table (run [declare_x, bad_function] shell0) ''x'' = Some (Instruction 3) \<and>
   codegen_ID ''x'' (run [declare_x, bad_function] shell0) =
     load (Instruction 3) ''x'' (run [declare_x, bad_function] shell0) \<and>
   map_option bfunction (builder (run [declare_x, bad_function] shell0)) = Some ''f''"
  by (simp add: eval_defs main_lookup_def)

text \<open>
  C8 (the code departs from the claim). \<open>codegen.py\<close> never reads \<open>minus_flag\<close>:
  an expression whose flag has been toggled is lowered to the same value as the
  expression itself, \<open>5.0\<close> for the number \<open>5.0\<close> and not its negation.
\<close>

theorem minus_flag_not_consulted:
  "minus_flag (change_minus_flag (Number False 5)) \<and>
   fst (codegen (change_minus_flag (Number False 5)) shell0) = Inr (Constant 5) \<and>
   fst (codegen (Number False 5) shell0) = Inr (Constant 5)"
  by (simp add: codegen_Number_def)

text \<open>
  C9 (the code departs from the claim). \<open>BinaryOperation(Number(1.0), '+', None)\<close>
  and \<open>PrintStatement([None])\<close> are constructed without an error: the right operand
  and the items of the print list are not checked.
\<close>

theorem unchecked_constructor_arguments:
  "BinaryOperation_init (Some (Number False 1)) ''+'' None =
     Inr (BinaryOperation False (Number False 1) ''+'' None) \<and>
   PrintStatement_init [NoneItem] = Inr (PrintStatement [NoneItem])"
  by (simp add: BinaryOperation_init_def PrintStatement_init_def)

text \<open>
  C10 (confirmed). At any point of a session with a shell-mode generator, lowering a
  function definition named \<open>main\<close> raises the \<open>CodegenError\<close> "Redefinition of
  function" and changes nothing; so does lowering a function definition named
  \<open>printf\<close> at any point of a session after a \<open>PrintStatement\<close> has been
  lowered, whether or not that lowering returned.
\<close>

theorem redefinition_of_main_and_printf:
  "codegen_FunctionDefinition (FunctionDefinition ''main'' ps body)
       (run nodes (LLVMCodeGenerator_init Shell rnd)) =
     (Inl (CodegenError (RedefinitionOfFunction ''main'')), run nodes (LLVMCodeGenerator_init Shell rnd)) \<and>
   codegen_FunctionDefinition (FunctionDefinition ''printf'' ps body)
       (run nodes (snd (codegen_statement (PrintStatement items) g))) =
     (Inl (CodegenError (RedefinitionOfFunction ''printf'')),
      run nodes (snd (codegen_statement (PrintStatement items) g)))"
proof -
  have "''main'' \<in> global_names (LLVMCodeGenerator_init Shell rnd)"
    by (simp add: LLVMCodeGenerator_init_def global_names_def main_function_name_def)
  then have m: "''main'' \<in> global_names (run nodes (LLVMCodeGenerator_init Shell rnd))"
    using run_names by blast
  have p: "''printf'' \<in> global_names (run nodes (snd (codegen_statement (PrintStatement items) g)))"
    using printf_declared run_names by blast
  show ?thesis using redefinition [OF m] redefinition [OF p] by blast
qed

theorem redefinition_of_main_and_printf_witness:
  "fst (codegen_FunctionDefinition (FunctionDefinition ''main'' [] (Block [] []))
       (run [declare_x] (LLVMCodeGenerator_init Shell names6))) =
     Inl (CodegenError (RedefinitionOfFunction ''main'')) \<and>
   fst (codegen_FunctionDefinition (FunctionDefinition ''printf'' [] (Block [] []))
       (run [declare_x] (snd (codegen_statement (PrintStatement [Text yes_text]) shell0)))) =
     Inl (CodegenError (RedefinitionOfFunction ''printf''))"
  using redefinition_of_main_and_printf [where ps = "[]" and body = "Block [] []"
      and nodes = "[declare_x]" and rnd = names6 and items = "[Text yes_text]" and g = shell0]
  by simp

end
